theory Spec2Isabelle
  imports Main "HOL-Library.Sublist"
begin

section \<open>Values and errors\<close>

text \<open>
  The exceptions the modelled code can raise. \<open>Exception msg\<close> is the plain
  \<^verbatim>\<open>Exception(msg)\<close> that \<^verbatim>\<open>event_field\<close> raises itself; the others are
  raised by the dictionary, attribute and parsing operations it calls, \<open>ReError\<close>
  (\<^verbatim>\<open>re.error\<close>) by the regular expression library and \<open>OverflowError\<close> and
  \<open>OSError\<close> by \<^verbatim>\<open>time.sleep\<close>.
\<close>

datatype error =
    Exception string
  | KeyError string
  | TypeError
  | ValueError
  | AttributeError
  | ReError
  | OverflowError
  | OSError

text \<open>
  \<^verbatim>\<open>datetime.date\<close> and \<^verbatim>\<open>datetime.datetime\<close> (a subclass of date). A datetime
  has a \<^verbatim>\<open>tzinfo\<close>, which is \<^verbatim>\<open>None\<close> for a naive one, and the \<^verbatim>\<open>fold\<close> bit that
  tells the two readings of an ambiguous wall-clock time apart.

  A \<^verbatim>\<open>tzinfo\<close> object is either a \<^verbatim>\<open>datetime.timezone\<close>, a fixed UTC offset (in
  microseconds), or an object of any other class (\<^verbatim>\<open>zoneinfo\<close>, \<^verbatim>\<open>pytz\<close>,
  \<^verbatim>\<open>dateutil\<close>, which icalendar puts into the times it reads). Such an object is
  known by its identity, a number, and by its method \<^verbatim>\<open>utcoffset\<close>, which is given the
  wall-clock reading and the fold and answers \<^verbatim>\<open>None\<close> or an offset in microseconds.
\<close>

record date =
  year :: nat
  month :: nat
  day :: nat

type_synonym wall_clock = "nat \<times> nat \<times> nat \<times> nat \<times> nat \<times> nat \<times> nat"

datatype tzinfo = Timezone int | Zone nat "wall_clock \<Rightarrow> bool \<Rightarrow> int option"

record datetime = date +
  hour :: nat
  minute :: nat
  second :: nat
  microsecond :: nat
  tzinfo :: "tzinfo option"
  fold :: bool

text \<open>
  The Python values that occur in events: \<open>VStr\<close> is \<^verbatim>\<open>str\<close> (and icalendar's
  \<^verbatim>\<open>vText\<close>, a subclass of it), \<open>VDDD v\<close> is an icalendar date property whose
  attribute \<^verbatim>\<open>dt\<close> is \<open>v\<close>, \<open>VDict\<close> is a dictionary with string keys.
\<close>

datatype pyval =
    VNone
  | VStr string
  | VDate date
  | VDateTime datetime
  | VDDD pyval
  | VList "pyval list"
  | VDict "string \<Rightarrow> pyval option"

type_synonym dict = "string \<Rightarrow> pyval option"

text \<open>An icalendar component: its name, its properties (keys are stored in upper
  case) and its subcomponents.\<close>

datatype component = Component (name: string) (props: dict) (subcomponents: "component list")

text \<open>The two shapes \<^verbatim>\<open>event_field\<close> tells apart with \<^verbatim>\<open>isinstance\<close>: an
  \<^verbatim>\<open>icalendar.Event\<close>, or anything else, which is read as a Google Calendar event
  resource (a dictionary).\<close>

datatype event = ICal component | Google dict

section \<open>Library operations\<close>

definition getitem :: "dict \<Rightarrow> string \<Rightarrow> error + pyval" where
  "getitem d k = (case d k of None \<Rightarrow> Inl (KeyError k) | Some v \<Rightarrow> Inr v)"

definition contains :: "string \<Rightarrow> dict \<Rightarrow> bool" where
  "contains k d = (d k \<noteq> None)"

definition dt :: "pyval \<Rightarrow> error + pyval" where
  "dt v = (case v of VDDD x \<Rightarrow> Inr x | _ \<Rightarrow> Inl AttributeError)"

subsection \<open>Calendar arithmetic\<close>

definition is_leap :: "nat \<Rightarrow> bool" where
  "is_leap y = (y mod 4 = 0 \<and> (y mod 100 \<noteq> 0 \<or> y mod 400 = 0))"

definition days_in_month :: "nat \<Rightarrow> nat \<Rightarrow> nat" where
  "days_in_month y m =
     (if m = 2 then (if is_leap y then 29 else 28)
      else if m = 4 \<or> m = 6 \<or> m = 9 \<or> m = 11 then 30 else 31)"

definition valid_date :: "nat \<Rightarrow> nat \<Rightarrow> nat \<Rightarrow> bool" where
  "valid_date y m d =
     (1 \<le> y \<and> y \<le> 9999 \<and> 1 \<le> m \<and> m \<le> 12 \<and> 1 \<le> d \<and> d \<le> days_in_month y m)"

definition valid_time :: "nat \<Rightarrow> nat \<Rightarrow> nat \<Rightarrow> nat \<Rightarrow> bool" where
  "valid_time h mi s us = (h \<le> 23 \<and> mi \<le> 59 \<and> s \<le> 59 \<and> us \<le> 999999)"

text \<open>A \<^verbatim>\<open>timezone\<close> offset must be strictly between -24 and +24 hours.\<close>

definition valid_offset :: "int \<Rightarrow> bool" where
  "valid_offset off = (- 86400000000 < off \<and> off < 86400000000)"

definition make_date :: "nat \<Rightarrow> nat \<Rightarrow> nat \<Rightarrow> error + date" where
  "make_date y m d =
     (if valid_date y m d then Inr \<lparr>year = y, month = m, day = d\<rparr> else Inl ValueError)"

text \<open>The constructor checks the ranges of the fields; the fold of the result is 0.\<close>

definition make_datetime ::
  "nat \<Rightarrow> nat \<Rightarrow> nat \<Rightarrow> nat \<Rightarrow> nat \<Rightarrow> nat \<Rightarrow> nat \<Rightarrow> tzinfo option \<Rightarrow> error + datetime" where
  "make_datetime y m d h mi s us tz =
     (if valid_date y m d \<and> valid_time h mi s us
      then Inr \<lparr>year = y, month = m, day = d, hour = h, minute = mi, second = s,
                microsecond = us, tzinfo = tz, fold = False\<rparr>
      else Inl ValueError)"

text \<open>Days before the first of January of year \<open>y\<close>, and before the first of month
  \<open>m\<close> in year \<open>y\<close>; \<open>toordinal\<close> is the proleptic Gregorian day number.\<close>

definition days_before_year :: "nat \<Rightarrow> nat" where
  "days_before_year y = (let p = y - 1 in p * 365 + p div 4 - p div 100 + p div 400)"

definition days_before_month :: "nat \<Rightarrow> nat \<Rightarrow> nat" where
  "days_before_month y m = sum_list (map (days_in_month y) [1 ..< m])"

definition toordinal :: "nat \<Rightarrow> nat \<Rightarrow> nat \<Rightarrow> nat" where
  "toordinal y m d = days_before_year y + days_before_month y m + d"

text \<open>The wall-clock reading of a datetime, the microseconds of that reading since day
  0, and the UTC instant of a datetime with the offset \<open>off\<close>.\<close>

definition wall_clock_of :: "datetime \<Rightarrow> wall_clock" where
  "wall_clock_of t = (year t, month t, day t, hour t, minute t, second t, microsecond t)"

definition wall_micros :: "datetime \<Rightarrow> int" where
  "wall_micros t =
     (((int (toordinal (year t) (month t) (day t)) * 24 + int (hour t)) * 60
        + int (minute t)) * 60 + int (second t)) * 1000000 + int (microsecond t)"

definition utc_micros :: "datetime \<Rightarrow> int \<Rightarrow> int" where
  "utc_micros t off = wall_micros t - off"

text \<open>\<^verbatim>\<open>utcoffset()\<close> of a datetime asks its \<^verbatim>\<open>tzinfo\<close>; the same question for the
  datetime with the other fold is \<^verbatim>\<open>get_flip_fold_offset\<close>.\<close>

definition tz_utcoffset :: "tzinfo option \<Rightarrow> wall_clock \<Rightarrow> bool \<Rightarrow> int option" where
  "tz_utcoffset tz w f =
     (case tz of
        None \<Rightarrow> None
      | Some (Timezone off) \<Rightarrow> Some off
      | Some (Zone i g) \<Rightarrow> g w f)"

definition utcoffset :: "datetime \<Rightarrow> int option" where
  "utcoffset t = tz_utcoffset (tzinfo t) (wall_clock_of t) (fold t)"

definition get_flip_fold_offset :: "datetime \<Rightarrow> int option" where
  "get_flip_fold_offset t = tz_utcoffset (tzinfo t) (wall_clock_of t) (\<not> fold t)"

subsection \<open>Equality of Python values\<close>

text \<open>
  \<^verbatim>\<open>==\<close> on two datetimes, as \<^verbatim>\<open>datetime_richcompare\<close> computes it. If the two have
  the same \<^verbatim>\<open>tzinfo\<close> object (or none, both), the wall-clock readings are compared and
  the folds are ignored. Otherwise the two offsets are asked for. With equal offsets
  (or none, both) the wall-clock readings are compared, with two different offsets the
  UTC instants; in both cases the two are unequal after all if the offset of one of
  them depends on its fold (the exception of PEP 495). A datetime with an offset and one
  without are unequal.

  Two \<^verbatim>\<open>timezone\<close> objects are taken as two objects here: if they are one object, their
  offsets are equal and do not depend on the fold, and the comparison of the readings is
  what the second case computes as well.

  A date and a datetime are unequal, strings compare by content, \<^verbatim>\<open>None\<close> equals only
  itself.
\<close>

definition same_tzinfo :: "tzinfo option \<Rightarrow> tzinfo option \<Rightarrow> bool" where
  "same_tzinfo a b =
     (case (a, b) of
        (None, None) \<Rightarrow> True
      | (Some (Zone i f), Some (Zone j g)) \<Rightarrow> i = j
      | _ \<Rightarrow> False)"

definition pep495_eq_exception ::
  "datetime \<Rightarrow> datetime \<Rightarrow> int option \<Rightarrow> int option \<Rightarrow> bool" where
  "pep495_eq_exception a b offset_a offset_b =
     (get_flip_fold_offset a \<noteq> offset_a \<or> get_flip_fold_offset b \<noteq> offset_b)"

definition datetime_eq :: "datetime \<Rightarrow> datetime \<Rightarrow> bool" where
  "datetime_eq a b =
     (if same_tzinfo (tzinfo a) (tzinfo b) then wall_clock_of a = wall_clock_of b
      else
        (let offset1 = utcoffset a; offset2 = utcoffset b in
         if offset1 = offset2
         then wall_clock_of a = wall_clock_of b \<and> \<not> pep495_eq_exception a b offset1 offset2
         else
           (case (offset1, offset2) of
              (Some o1, Some o2) \<Rightarrow>
                utc_micros a o1 = utc_micros b o2 \<and> \<not> pep495_eq_exception a b offset1 offset2
            | _ \<Rightarrow> False)))"

definition py_eq :: "pyval \<Rightarrow> pyval \<Rightarrow> bool" where
  "py_eq a b =
     (case (a, b) of
        (VDateTime x, VDateTime y) \<Rightarrow> datetime_eq x y
      | _ \<Rightarrow> a = b)"

subsection \<open>Parsing dates and times\<close>

text \<open>Strings are sequences of bytes (the UTF-8 encoding of a Python \<^verbatim>\<open>str\<close>); the
  parsers of the interpreter work on these bytes, and reading at the end of the string
  yields the byte \<open>0\<close> that ends it.\<close>

definition peek :: "string \<Rightarrow> char" where
  "peek s = (case s of [] \<Rightarrow> CHR 0x00 | c # r \<Rightarrow> c)"

definition at :: "string \<Rightarrow> nat \<Rightarrow> char" where
  "at s i = peek (drop i s)"

definition digit_val :: "char \<Rightarrow> nat option" where
  "digit_val c =
     (let n = (of_char c :: nat) in if 48 \<le> n \<and> n \<le> 57 then Some (n - 48) else None)"

definition is_digit :: "char \<Rightarrow> bool" where
  "is_digit c = (digit_val c \<noteq> None)"

text \<open>\<^verbatim>\<open>parse_digits\<close>: a number written with exactly \<open>n\<close> decimal digits.\<close>

fun parse_digits :: "nat \<Rightarrow> string \<Rightarrow> nat \<Rightarrow> (nat \<times> string) option" where
  "parse_digits 0 s acc = Some (acc, s)"
| "parse_digits (Suc n) s acc =
     (case s of
        [] \<Rightarrow> None
      | c # r \<Rightarrow>
          (case digit_val c of
             None \<Rightarrow> None
           | Some x \<Rightarrow> parse_digits n r (10 * acc + x)))"

definition two_digits :: "string \<Rightarrow> (nat \<times> string) option" where
  "two_digits s =
     (case s of
        a # b # r \<Rightarrow>
          (case (digit_val a, digit_val b) of
             (Some x, Some y) \<Rightarrow> Some (10 * x + y, r)
           | _ \<Rightarrow> None)
      | _ \<Rightarrow> None)"

definition four_digits :: "string \<Rightarrow> (nat \<times> string) option" where
  "four_digits s =
     (case two_digits s of
        None \<Rightarrow> None
      | Some (hi, r) \<Rightarrow>
          (case two_digits r of
             None \<Rightarrow> None
           | Some (lo, r') \<Rightarrow> Some (100 * hi + lo, r')))"

text \<open>
  \<^verbatim>\<open>datetime.strptime(s, "%Y-%m-%d").date()\<close>. The directive \<^verbatim>\<open>%Y\<close> takes four
  digits; \<^verbatim>\<open>%m\<close> takes \<^verbatim>\<open>1[0-2]\<close>, \<^verbatim>\<open>0[1-9]\<close> or \<^verbatim>\<open>[1-9]\<close>, tried in this
  order; \<^verbatim>\<open>%d\<close> takes \<^verbatim>\<open>3[01]\<close>, \<^verbatim>\<open>[12][0-9]\<close>, \<^verbatim>\<open>0[1-9]\<close>, \<^verbatim>\<open>[1-9]\<close> or a
  blank and \<^verbatim>\<open>[1-9]\<close>. Text left over after the day, and a day the month does not have,
  are a \<^verbatim>\<open>ValueError\<close>.
\<close>

definition month_token :: "string \<Rightarrow> (nat \<times> string) option" where
  "month_token s =
     (case s of
        [] \<Rightarrow> None
      | a # r \<Rightarrow>
          (case digit_val a of
             None \<Rightarrow> None
           | Some x \<Rightarrow>
               (case r of
                  [] \<Rightarrow> (if 1 \<le> x then Some (x, r) else None)
                | b # r' \<Rightarrow>
                    (case digit_val b of
                       None \<Rightarrow> (if 1 \<le> x then Some (x, r) else None)
                     | Some y \<Rightarrow>
                         if x = 1 \<and> y \<le> 2 then Some (10 + y, r')
                         else if x = 0 \<and> 1 \<le> y then Some (y, r')
                         else if 1 \<le> x then Some (x, r)
                         else None))))"

definition day_token :: "string \<Rightarrow> (nat \<times> string) option" where
  "day_token s =
     (case s of
        [] \<Rightarrow> None
      | a # r \<Rightarrow>
          (case r of
             [] \<Rightarrow>
               (case digit_val a of
                  Some x \<Rightarrow> (if 1 \<le> x then Some (x, r) else None)
                | None \<Rightarrow> None)
           | b # r' \<Rightarrow>
               (case (digit_val a, digit_val b) of
                  (Some x, Some y) \<Rightarrow>
                    if x = 3 \<and> y \<le> 1 then Some (30 + y, r')
                    else if x = 1 \<or> x = 2 then Some (10 * x + y, r')
                    else if x = 0 \<and> 1 \<le> y then Some (y, r')
                    else if 1 \<le> x then Some (x, r)
                    else None
                | (Some x, None) \<Rightarrow> (if 1 \<le> x then Some (x, r) else None)
                | (None, Some y) \<Rightarrow> (if a = CHR '' '' \<and> 1 \<le> y then Some (y, r') else None)
                | (None, None) \<Rightarrow> None)))"

definition strptime_date :: "string \<Rightarrow> error + date" where
  "strptime_date s =
     (case four_digits s of
        None \<Rightarrow> Inl ValueError
      | Some (y, r1) \<Rightarrow>
          (case r1 of
             [] \<Rightarrow> Inl ValueError
           | c1 # r2 \<Rightarrow>
               if c1 \<noteq> CHR ''-'' then Inl ValueError
               else
                 (case month_token r2 of
                    None \<Rightarrow> Inl ValueError
                  | Some (m, r3) \<Rightarrow>
                      (case r3 of
                         [] \<Rightarrow> Inl ValueError
                       | c2 # r4 \<Rightarrow>
                           if c2 \<noteq> CHR ''-'' then Inl ValueError
                           else
                             (case day_token r4 of
                                None \<Rightarrow> Inl ValueError
                              | Some (d, r5) \<Rightarrow>
                                  if r5 \<noteq> [] then Inl ValueError else make_date y m d)))))"

text \<open>
  \<^verbatim>\<open>datetime.fromisoformat\<close> as CPython 3.11 implements it (in C, on the bytes of the
  string). First the position of the separator between date and time is found from
  the characters at positions 4, 5, 8 and 10: the date is written \<^verbatim>\<open>YYYY-MM-DD\<close>,
  \<^verbatim>\<open>YYYYMMDD\<close>, \<^verbatim>\<open>YYYY-Www\<close>, \<^verbatim>\<open>YYYYWww\<close>, \<^verbatim>\<open>YYYY-Www-D\<close> or \<^verbatim>\<open>YYYYWwwD\<close>.
\<close>

definition find_isoformat_datetime_separator :: "string \<Rightarrow> nat option" where
  "find_isoformat_datetime_separator s =
     (let len = length s in
      if len = 7 then Some 7
      else if at s 4 = CHR ''-'' then
        (if at s 5 = CHR ''W'' then
           (if len < 8 then None
            else if len > 8 \<and> at s 8 = CHR ''-'' then
              (if len = 9 then None
               else if len > 10 \<and> is_digit (at s 10) then Some 8
               else Some 10)
            else Some 8)
         else Some 10)
      else if at s 4 = CHR ''W'' then
        (let idx = 7 + length (takeWhile is_digit (drop 7 s)) in
         if idx < 9 then Some idx
         else if idx mod 2 = 0 then Some 7
         else Some 8)
      else Some 8)"

text \<open>The day number of a date (\<open>toordinal\<close>, day 1 is 0001-01-01) and its inverse for
  day numbers from 1 on; weekdays count from Monday, which is 0.\<close>

definition ord_to_ymd :: "nat \<Rightarrow> nat \<times> nat \<times> nat" where
  "ord_to_ymd ordinal =
     (let o1 = ordinal - 1;
          n400 = o1 div 146097; r400 = o1 mod 146097;
          n100 = r400 div 36524; r100 = r400 mod 36524;
          n4 = r100 div 1461; r4 = r100 mod 1461;
          n1 = r4 div 365; n = r4 mod 365;
          y = n400 * 400 + 1 + n100 * 100 + n4 * 4 + n1
      in if n1 = 4 \<or> n100 = 4 then (y - 1, 12, 31)
         else
           (let m0 = (n + 50) div 32;
                before = (\<lambda>m. days_before_month y m);
                m = (if before m0 > n then m0 - 1 else m0)
            in (y, m, n - before m + 1)))"

definition weekday :: "nat \<Rightarrow> nat \<Rightarrow> nat \<Rightarrow> nat" where
  "weekday y m d = (toordinal y m d + 6) mod 7"

definition iso_week1_monday :: "nat \<Rightarrow> nat" where
  "iso_week1_monday y =
     (let first_day = toordinal y 1 1;
          first_weekday = (first_day + 6) mod 7;
          week1_monday = first_day - first_weekday
      in if first_weekday > 3 then week1_monday + 7 else week1_monday)"

text \<open>\<^verbatim>\<open>iso_to_ymd\<close>: the date of day \<open>iso_day\<close> of week \<open>iso_week\<close>. For the year 0,
  which \<^verbatim>\<open>parse_digits\<close> lets through, no week yields a date the constructor accepts.\<close>

definition iso_to_ymd :: "nat \<Rightarrow> nat \<Rightarrow> nat \<Rightarrow> error + (nat \<times> nat \<times> nat)" where
  "iso_to_ymd iso_year iso_week iso_day =
     (if iso_year = 0 then Inl ValueError
      else if (iso_week = 0 \<or> iso_week \<ge> 53) \<and>
              \<not> (iso_week = 53 \<and>
                 (weekday iso_year 1 1 = 3 \<or> (weekday iso_year 1 1 = 2 \<and> is_leap iso_year)))
      then Inl ValueError
      else if iso_day = 0 \<or> iso_day \<ge> 8 then Inl ValueError
      else Inr (ord_to_ymd (iso_week1_monday iso_year + (iso_week - 1) * 7 + iso_day - 1)))"

text \<open>\<^verbatim>\<open>parse_isoformat_date\<close>: the date, which ends at the separator position
  \<open>sep\<close>.\<close>

definition parse_isoformat_date :: "string \<Rightarrow> nat \<Rightarrow> error + (nat \<times> nat \<times> nat)" where
  "parse_isoformat_date s sep =
     (case four_digits s of
        None \<Rightarrow> Inl ValueError
      | Some (y, r1) \<Rightarrow>
          (let uses_separator = (peek r1 = CHR ''-'');
               r2 = (if uses_separator then drop 1 r1 else r1);
               pos = (if uses_separator then 5 else 4)
           in if peek r2 = CHR ''W'' then
                (case two_digits (drop 1 r2) of
                   None \<Rightarrow> Inl ValueError
                 | Some (iso_week, r3) \<Rightarrow>
                     if pos + 3 < sep then
                       (if uses_separator \<and> peek r3 \<noteq> CHR ''-'' then Inl ValueError
                        else
                          (case parse_digits 1 (if uses_separator then drop 1 r3 else r3) 0 of
                             None \<Rightarrow> Inl ValueError
                           | Some (iso_day, r4) \<Rightarrow> iso_to_ymd y iso_week iso_day))
                     else iso_to_ymd y iso_week 1)
              else
                (case two_digits r2 of
                   None \<Rightarrow> Inl ValueError
                 | Some (m, r3) \<Rightarrow>
                     if uses_separator \<and> peek r3 \<noteq> CHR ''-'' then Inl ValueError
                     else
                       (case two_digits (if uses_separator then drop 1 r3 else r3) of
                          None \<Rightarrow> Inl ValueError
                        | Some (d, r4) \<Rightarrow> Inr (y, m, d)))))"

text \<open>
  \<^verbatim>\<open>parse_hh_mm_ss_ff\<close> reads \<^verbatim>\<open>HH[:MM[:SS]]\<close>, with or without the colons, and a
  fraction of the second after \<^verbatim>\<open>.\<close> or \<^verbatim>\<open>,\<close>. The text to read is the first \<open>k\<close>
  characters of \<open>s\<close>; the character after them is looked at as well. The result is
  \<open>None\<close> for a failure, and else the four numbers and a flag that says that the
  reading stopped before the end of the whole string. The three stages are the three
  rounds of the loop of the C function; \<open>has_separator\<close> is fixed in the first.
\<close>

definition parse_fraction :: "string \<Rightarrow> nat \<Rightarrow> (nat \<times> bool) option" where
  "parse_fraction s k =
     (let to_parse = min k 6 in
      case parse_digits to_parse s 0 of
        None \<Rightarrow> None
      | Some (us, r) \<Rightarrow>
          Some (us * 10 ^ (6 - to_parse), peek (dropWhile is_digit r) \<noteq> CHR 0x00))"

definition parse_ss ::
  "bool \<Rightarrow> nat \<Rightarrow> nat \<Rightarrow> string \<Rightarrow> nat \<Rightarrow> (nat \<times> nat \<times> nat \<times> nat \<times> bool) option" where
  "parse_ss has_separator hh mm s k =
     (case two_digits s of
        None \<Rightarrow> None
      | Some (ss, r) \<Rightarrow>
          (let c = peek r in
           if k \<le> 3 then Some (hh, mm, ss, 0, c \<noteq> CHR 0x00)
           else if (has_separator \<and> c = CHR '':'') \<or> c = CHR ''.'' \<or> c = CHR '','' then
             (case parse_fraction (drop 1 r) (k - 3) of
                None \<Rightarrow> None
              | Some (us, trail) \<Rightarrow> Some (hh, mm, ss, us, trail))
           else if \<not> has_separator then
             (case parse_fraction r (k - 2) of
                None \<Rightarrow> None
              | Some (us, trail) \<Rightarrow> Some (hh, mm, ss, us, trail))
           else None))"

definition parse_mm ::
  "bool \<Rightarrow> nat \<Rightarrow> string \<Rightarrow> nat \<Rightarrow> (nat \<times> nat \<times> nat \<times> nat \<times> bool) option" where
  "parse_mm has_separator hh s k =
     (case two_digits s of
        None \<Rightarrow> None
      | Some (mm, r) \<Rightarrow>
          (let c = peek r in
           if k \<le> 3 then Some (hh, mm, 0, 0, c \<noteq> CHR 0x00)
           else if has_separator \<and> c = CHR '':'' then
             parse_ss has_separator hh mm (drop 1 r) (k - 3)
           else if c = CHR ''.'' \<or> c = CHR '','' then
             (case parse_fraction (drop 1 r) (k - 3) of
                None \<Rightarrow> None
              | Some (us, trail) \<Rightarrow> Some (hh, mm, 0, us, trail))
           else if \<not> has_separator then parse_ss has_separator hh mm r (k - 2)
           else None))"

definition parse_hh_mm_ss_ff ::
  "string \<Rightarrow> nat \<Rightarrow> (nat \<times> nat \<times> nat \<times> nat \<times> bool) option" where
  "parse_hh_mm_ss_ff s k =
     (case two_digits s of
        None \<Rightarrow> None
      | Some (hh, r) \<Rightarrow>
          (let c = peek r; has_separator = (c = CHR '':'') in
           if k \<le> 3 then Some (hh, 0, 0, 0, c \<noteq> CHR 0x00)
           else if has_separator then parse_mm has_separator hh (drop 1 r) (k - 3)
           else if c = CHR ''.'' \<or> c = CHR '','' then
             (case parse_fraction (drop 1 r) (k - 3) of
                None \<Rightarrow> None
              | Some (us, trail) \<Rightarrow> Some (hh, 0, 0, us, trail))
           else parse_mm has_separator hh r (k - 2)))"

text \<open>\<^verbatim>\<open>parse_isoformat_time\<close>: the time up to the first \<^verbatim>\<open>Z\<close>, \<^verbatim>\<open>+\<close> or \<^verbatim>\<open>-\<close>,
  then the offset. The result is the time and the offset, as seconds and microseconds.\<close>

definition is_tz_char :: "char \<Rightarrow> bool" where
  "is_tz_char c = (c = CHR ''Z'' \<or> c = CHR ''+'' \<or> c = CHR ''-'')"

definition parse_isoformat_time ::
  "string \<Rightarrow> error + ((nat \<times> nat \<times> nat \<times> nat) \<times> (int \<times> int) option)" where
  "parse_isoformat_time s =
     (if s = [] then Inl ValueError
      else
        (let tzinfo_pos = length (takeWhile (\<lambda>c. \<not> is_tz_char c) s) in
         case parse_hh_mm_ss_ff s tzinfo_pos of
           None \<Rightarrow> Inl ValueError
         | Some (h, mi, sec, us, trail) \<Rightarrow>
             if tzinfo_pos = length s then
               (if trail then Inl ValueError else Inr ((h, mi, sec, us), None))
             else if at s tzinfo_pos = CHR ''Z'' then
               (if at s (Suc tzinfo_pos) \<noteq> CHR 0x00 then Inl ValueError
                else Inr ((h, mi, sec, us), Some (0, 0)))
             else
               (let tzsign = (if at s tzinfo_pos = CHR ''-'' then - 1 else 1 :: int);
                    tzstr = drop (Suc tzinfo_pos) s
                in case parse_hh_mm_ss_ff tzstr (length tzstr) of
                     None \<Rightarrow> Inl ValueError
                   | Some (th, tm, ts, tus, trail') \<Rightarrow>
                       if trail' then Inl ValueError
                       else Inr ((h, mi, sec, us),
                              Some (tzsign * (int th * 3600 + int tm * 60 + int ts),
                                    tzsign * int tus)))))"

text \<open>The time zone of the result: none without an offset, UTC when the offset has zero
  seconds, else a fixed offset, which must be less than a day.\<close>

definition tzinfo_from_isoformat_results :: "(int \<times> int) option \<Rightarrow> error + tzinfo option" where
  "tzinfo_from_isoformat_results tz =
     (case tz of
        None \<Rightarrow> Inr None
      | Some (tzoffset, tz_useconds) \<Rightarrow>
          if tzoffset = 0 then Inr (Some (Timezone 0))
          else
            (let off = tzoffset * 1000000 + tz_useconds in
             if valid_offset off then Inr (Some (Timezone off)) else Inl ValueError))"

text \<open>The separator between date and time is one character: one to four bytes.\<close>

definition separator_width :: "char \<Rightarrow> nat" where
  "separator_width c =
     (let b = (of_char c :: nat) in
      if b < 128 then 1
      else if b div 16 = 14 then 3
      else if b div 16 = 15 then 4
      else 2)"

definition fromisoformat :: "string \<Rightarrow> error + datetime" where
  "fromisoformat s =
     (if length s < 7 then Inl ValueError
      else
        (case find_isoformat_datetime_separator s of
           None \<Rightarrow> Inl ValueError
         | Some sep \<Rightarrow>
             (case parse_isoformat_date s sep of
                Inl e \<Rightarrow> Inl e
              | Inr (y, m, d) \<Rightarrow>
                  if length s > sep then
                    (case parse_isoformat_time (drop (sep + separator_width (at s sep)) s) of
                       Inl e \<Rightarrow> Inl e
                     | Inr ((h, mi, sec, us), tz) \<Rightarrow>
                         (case tzinfo_from_isoformat_results tz of
                            Inl e \<Rightarrow> Inl e
                          | Inr tzi \<Rightarrow> make_datetime y m d h mi sec us tzi))
                  else make_datetime y m d 0 0 0 0 None)))"

text \<open>Both parsers take a \<^verbatim>\<open>str\<close>; any other argument is a \<^verbatim>\<open>TypeError\<close>.\<close>

definition datetime_fromisoformat :: "pyval \<Rightarrow> error + pyval" where
  "datetime_fromisoformat v =
     (case v of
        VStr s \<Rightarrow> (case fromisoformat s of Inl e \<Rightarrow> Inl e | Inr t \<Rightarrow> Inr (VDateTime t))
      | _ \<Rightarrow> Inl TypeError)"

definition datetime_strptime_date :: "pyval \<Rightarrow> error + pyval" where
  "datetime_strptime_date v =
     (case v of
        VStr s \<Rightarrow> (case strptime_date s of Inl e \<Rightarrow> Inl e | Inr d \<Rightarrow> Inr (VDate d))
      | _ \<Rightarrow> Inl TypeError)"

section \<open>Event fields (\<^verbatim>\<open>otg/api/events.py\<close>)\<close>

definition EVENT_ID :: string where "EVENT_ID = ''id''"
definition EVENT_SUMMARY :: string where "EVENT_SUMMARY = ''summary''"
definition EVENT_DESCRIPTION :: string where "EVENT_DESCRIPTION = ''description''"
definition EVENT_LOCATION :: string where "EVENT_LOCATION = ''location''"
definition EVENT_STATUS :: string where "EVENT_STATUS = ''status''"
definition EVENT_RECURRENCE :: string where "EVENT_RECURRENCE = ''recurrence''"
definition EVENT_START :: string where "EVENT_START = ''start''"
definition EVENT_END :: string where "EVENT_END = ''end''"

definition EVENT_FIELDS :: "string list" where
  "EVENT_FIELDS =
     [EVENT_ID, EVENT_SUMMARY, EVENT_LOCATION, EVENT_DESCRIPTION, EVENT_STATUS,
      EVENT_RECURRENCE, EVENT_START, EVENT_END]"

definition EVENT_COMPARISON_FIELDS :: "string list" where
  "EVENT_COMPARISON_FIELDS =
     [EVENT_SUMMARY, EVENT_DESCRIPTION, EVENT_LOCATION, EVENT_START, EVENT_END]"

text \<open>The start or end of a Google event: \<^verbatim>\<open>d = event[key]\<close>, then the
  \<^verbatim>\<open>dateTime\<close> member if \<open>d\<close> has one, else the \<^verbatim>\<open>date\<close> member. A \<open>d\<close> that
  is no dictionary fails in the membership test or in the subscript with a
  \<^verbatim>\<open>TypeError\<close>.\<close>

definition google_time :: "pyval \<Rightarrow> error + pyval" where
  "google_time d =
     (case d of
        VDict m \<Rightarrow>
          if contains ''dateTime'' m
          then (case getitem m ''dateTime'' of
                  Inl e \<Rightarrow> Inl e
                | Inr v \<Rightarrow> datetime_fromisoformat v)
          else (case getitem m ''date'' of
                  Inl e \<Rightarrow> Inl e
                | Inr v \<Rightarrow> datetime_strptime_date v)
      | _ \<Rightarrow> Inl TypeError)"

definition ical_dt :: "dict \<Rightarrow> string \<Rightarrow> error + pyval" where
  "ical_dt m key = (case getitem m key of Inl e \<Rightarrow> Inl e | Inr v \<Rightarrow> dt v)"

definition event_field :: "event \<Rightarrow> string \<Rightarrow> error + pyval" where
  "event_field event field =
     (if field \<notin> set EVENT_FIELDS
      then Inl (Exception (''Unknown event field: '' @ field))
      else
        (case event of
           ICal c \<Rightarrow>
             if field = EVENT_ID then getitem (props c) ''UID''
             else if field = EVENT_SUMMARY then
               (if contains ''SUMMARY'' (props c) then getitem (props c) ''SUMMARY''
                else Inr (VStr ''''))
             else if field = EVENT_DESCRIPTION then
               (if contains ''DESCRIPTION'' (props c) then getitem (props c) ''DESCRIPTION''
                else Inr (VStr ''''))
             else if field = EVENT_STATUS then getitem (props c) ''STATUS''
             else if field = EVENT_LOCATION then getitem (props c) ''LOCATION''
             else if field = EVENT_RECURRENCE then
               (if contains ''RRULE'' (props c) then getitem (props c) ''RRULE''
                else Inr VNone)
             else if field = EVENT_START then
               (if contains ''DTSTART'' (props c) then ical_dt (props c) ''DTSTART''
                else Inr VNone)
             else if field = EVENT_END then
               (if contains ''DTEND'' (props c) then ical_dt (props c) ''DTEND''
                else Inr VNone)
             else Inl (Exception (''Unhandled event field: '' @ field))
         | Google g \<Rightarrow>
             if field = EVENT_ID then getitem g ''id''
             else if field = EVENT_SUMMARY then
               (if contains ''summary'' g then getitem g ''summary'' else Inr (VStr ''''))
             else if field = EVENT_DESCRIPTION then
               (if contains ''description'' g then getitem g ''description''
                else Inr (VStr ''''))
             else if field = EVENT_STATUS then getitem g ''status''
             else if field = EVENT_LOCATION then getitem g ''location''
             else if field = EVENT_RECURRENCE then
               (if contains ''recurrence'' g then getitem g ''recurrence'' else Inr VNone)
             else if field = EVENT_START then
               (if contains ''start'' g
                then (case getitem g ''start'' of Inl e \<Rightarrow> Inl e | Inr d \<Rightarrow> google_time d)
                else Inr VNone)
             else if field = EVENT_END then
               (if contains ''end'' g
                then (case getitem g ''end'' of Inl e \<Rightarrow> Inl e | Inr d \<Rightarrow> google_time d)
                else Inr VNone)
             else Inl (Exception (''Unhandled event field: '' @ field))))"

text \<open>\<^verbatim>\<open>is_same_event\<close>: the Outlook event's id against the Google event's
  \<^verbatim>\<open>iCalUID\<close>, which is the empty string when the key is missing.\<close>

definition is_same_event :: "event \<Rightarrow> dict \<Rightarrow> error + bool" where
  "is_same_event outlook google =
     (case event_field outlook EVENT_ID of
        Inl e \<Rightarrow> Inl e
      | Inr oid \<Rightarrow>
          (case (if contains ''iCalUID'' google then getitem google ''iCalUID''
                 else Inr (VStr '''')) of
             Inl e \<Rightarrow> Inl e
           | Inr gid \<Rightarrow> Inr (py_eq oid gid)))"

text \<open>\<^verbatim>\<open>has_event_changed\<close>: the loop over the comparison fields, leaving at the
  first field whose two values differ.\<close>

fun changed_loop :: "event \<Rightarrow> event \<Rightarrow> string list \<Rightarrow> error + bool" where
  "changed_loop outlook google [] = Inr False"
| "changed_loop outlook google (field # rest) =
     (case event_field outlook field of
        Inl e \<Rightarrow> Inl e
      | Inr ovalue \<Rightarrow>
          (case event_field google field of
             Inl e \<Rightarrow> Inl e
           | Inr gvalue \<Rightarrow>
               if \<not> py_eq ovalue gvalue then Inr True
               else changed_loop outlook google rest))"

definition has_event_changed :: "event \<Rightarrow> event \<Rightarrow> error + bool" where
  "has_event_changed outlook google = changed_loop outlook google EVENT_COMPARISON_FIELDS"

section \<open>Filtering the calendar (\<^verbatim>\<open>itg/api/outlook.py\<close>)\<close>

text \<open>\<^verbatim>\<open>Component.walk(name)\<close>: the component itself if it has that name, then the
  matching components of its subcomponents, in document order.\<close>

fun walk :: "component \<Rightarrow> string \<Rightarrow> component list" where
  "walk (Component n p subs) nm =
     (if n = nm then [Component n p subs] else []) @ concat (map (\<lambda>c. walk c nm) subs)"

text \<open>
  The regular expression library, as far as \<^verbatim>\<open>re.match\<close> uses it, is a parameter
  \<open>lib\<close>. A pattern string that is malformed has no compiled form (\<open>None\<close>), and
  \<^verbatim>\<open>re.match\<close> raises \<^verbatim>\<open>re.error\<close> for it. A well-formed pattern compiles to a matcher
  \<open>matches_at\<close>, which says for a string and a position whether the pattern matches the
  string from that position on. \<^verbatim>\<open>re.match\<close> asks for a match at position \<open>0\<close>, the
  beginning of the string; it compiles the pattern first and raises \<^verbatim>\<open>TypeError\<close>
  for a value that is no string after that.
\<close>

type_synonym regex_lib = "string \<Rightarrow> (string \<Rightarrow> nat \<Rightarrow> bool) option"

definition re_match :: "regex_lib \<Rightarrow> string \<Rightarrow> pyval \<Rightarrow> error + bool" where
  "re_match lib pat v =
     (case lib pat of
        None \<Rightarrow> Inl ReError
      | Some matches_at \<Rightarrow>
          (case v of VStr s \<Rightarrow> Inr (matches_at s 0) | _ \<Rightarrow> Inl TypeError))"

text \<open>One test of the loop body: \<^verbatim>\<open>if regexp is not None: match = re.match(regexp,
  event[key])\<close>; the entry is looked up before \<^verbatim>\<open>re.match\<close> is called. The result
  says whether the event is still wanted.\<close>

definition check_pattern ::
  "regex_lib \<Rightarrow> string option \<Rightarrow> component \<Rightarrow> string \<Rightarrow> error + bool" where
  "check_pattern lib regexp event key =
     (case regexp of
        None \<Rightarrow> Inr True
      | Some pat \<Rightarrow>
          (case getitem (props event) key of
             Inl e \<Rightarrow> Inl e
           | Inr v \<Rightarrow> re_match lib pat v))"

fun filter_loop ::
  "regex_lib \<Rightarrow> string option \<Rightarrow> string option \<Rightarrow> component list \<Rightarrow> component list
     \<Rightarrow> error + component list" where
  "filter_loop lib regexp_id regexp_summary [] result = Inr result"
| "filter_loop lib regexp_id regexp_summary (event # events) result =
     (case check_pattern lib regexp_id event ''UID'' of
        Inl e \<Rightarrow> Inl e
      | Inr ok_id \<Rightarrow>
          if \<not> ok_id then filter_loop lib regexp_id regexp_summary events result
          else
            (case check_pattern lib regexp_summary event ''SUMMARY'' of
               Inl e \<Rightarrow> Inl e
             | Inr ok_summary \<Rightarrow>
                 if \<not> ok_summary
                 then filter_loop lib regexp_id regexp_summary events result
                 else filter_loop lib regexp_id regexp_summary events (result @ [event])))"

definition filter_events ::
  "regex_lib \<Rightarrow> component \<Rightarrow> string option \<Rightarrow> string option \<Rightarrow> error + component list" where
  "filter_events lib calendar regexp_id regexp_summary =
     filter_loop lib regexp_id regexp_summary (walk calendar ''VEVENT'') []"

text \<open>
  A library to run examples with. It agrees with \<^verbatim>\<open>re\<close> on the patterns the examples
  use: a pattern without special characters matches its own text and nothing else, and
  the pattern \<^verbatim>\<open>(\<close> is malformed. The examples use no other pattern with a special
  character; this library takes all of them for malformed.
\<close>

definition special_chars :: string where
  "special_chars = ''.^$*+?{}[]|()'' @ [CHR 0x5C]"

definition literal_match :: regex_lib where
  "literal_match pat =
     (if set pat \<inter> set special_chars = {}
      then Some (\<lambda>s i. take (length pat) (drop i s) = pat)
      else None)"






section \<open>The poll loop (\<^verbatim>\<open>itg/tools/sync_calendars.py\<close>)\<close>

text \<open>
  What one can observe of \<^verbatim>\<open>sync_events\<close>: the runs of the pipeline (loading and
  filtering both calendars, comparing, synchronising), the log lines and the sleeps.
  The pipeline is a parameter: cycle \<open>i\<close> either raises, which ends the loop, or yields
  the number of per-item errors that \<^verbatim>\<open>sync\<close> has collected. \<^verbatim>\<open>time.sleep\<close> is a
  parameter as well: \<open>sleep i n\<close> is the exception it raises when called with \<open>n\<close> in
  cycle \<open>i\<close>, or \<open>None\<close> when it sleeps and returns.
\<close>

datatype action = Cycle nat | LogWarning | LogInfo int | Sleep int

datatype outcome = Returned | Raised error | Running

fun sync_loop ::
  "nat \<Rightarrow> (nat \<Rightarrow> int \<Rightarrow> error option) \<Rightarrow> (nat \<Rightarrow> error + nat) \<Rightarrow> int option \<Rightarrow> nat
     \<Rightarrow> action list \<Rightarrow> outcome \<times> action list" where
  "sync_loop 0 sleep pipeline poll_interval i trace = (Running, trace)"
| "sync_loop (Suc fuel) sleep pipeline poll_interval i trace =
     (case pipeline i of
        Inl e \<Rightarrow> (Raised e, trace @ [Cycle i])
      | Inr num_errors \<Rightarrow>
          (let trace1 = trace @ [Cycle i] @ (if num_errors > 0 then [LogWarning] else [])
           in case poll_interval of
                None \<Rightarrow> (Returned, trace1)
              | Some n \<Rightarrow>
                  (case sleep i n of
                     Some e \<Rightarrow> (Raised e, trace1 @ [LogInfo n])
                   | None \<Rightarrow>
                       sync_loop fuel sleep pipeline poll_interval (Suc i)
                         (trace1 @ [LogInfo n, Sleep n]))))"

text \<open>\<open>sync_events fuel\<close> runs at most \<open>fuel\<close> iterations of the \<^verbatim>\<open>while True\<close>
  loop; the outcome \<open>Running\<close> says that the loop has not ended within them.\<close>

definition sync_events ::
  "nat \<Rightarrow> (nat \<Rightarrow> int \<Rightarrow> error option) \<Rightarrow> (nat \<Rightarrow> error + nat) \<Rightarrow> int option
     \<Rightarrow> outcome \<times> action list" where
  "sync_events fuel sleep pipeline poll_interval =
     sync_loop fuel sleep pipeline poll_interval 0 []"

text \<open>
  \<^verbatim>\<open>time.sleep\<close> with a whole number of seconds, as the interpreter (CPython 3.11 on
  64-bit Linux) has it: \<^verbatim>\<open>OverflowError\<close> when the interval in nanoseconds does not
  fit into 64 bits, \<^verbatim>\<open>ValueError\<close> when it is negative, \<^verbatim>\<open>OSError\<close> when it is longer
  than \<open>room\<close>, the longest interval whose end the platform's clock can still
  express at the time of the call.
\<close>

definition time_sleep :: "int \<Rightarrow> int \<Rightarrow> error option" where
  "time_sleep room n =
     (if n < - 9223372036 \<or> 9223372036 < n then Some OverflowError
      else if n < 0 then Some ValueError
      else if room < n then Some OSError
      else None)"

text \<open>The cadence of a trace: its pipeline runs and sleeps, without the log lines.\<close>

fun is_cadence :: "action \<Rightarrow> bool" where
  "is_cadence (Cycle i) = True"
| "is_cadence (Sleep n) = True"
| "is_cadence LogWarning = False"
| "is_cadence (LogInfo n) = False"

definition cadence :: "action list \<Rightarrow> action list" where
  "cadence trace = filter is_cadence trace"

section \<open>The spellings of a time in a Google event\<close>

text \<open>
  A Google event carries its start and end either as a date, written \<^verbatim>\<open>YYYY-MM-DD\<close>, or
  as a date and time with a UTC offset, written as in RFC 3339:
  \<^verbatim>\<open>YYYY-MM-DDTHH:MM:SS\<close>, then possibly a fraction of the second, then the offset. These
  functions write the spellings out, digit by digit; they are used to state what the
  parsers read.
\<close>

definition digit_char :: "nat \<Rightarrow> char" where
  "digit_char n = char_of (48 + n)"

definition show2 :: "nat \<Rightarrow> string" where
  "show2 n = [digit_char (n div 10), digit_char (n mod 10)]"

definition show4 :: "nat \<Rightarrow> string" where
  "show4 n = show2 (n div 100) @ show2 (n mod 100)"

text \<open>The last \<open>n\<close> decimal digits of \<open>v\<close>.\<close>

fun digits :: "nat \<Rightarrow> nat \<Rightarrow> string" where
  "digits 0 v = []"
| "digits (Suc n) v = digit_char (v div 10 ^ n mod 10) # digits n v"

definition yyyy_mm_dd :: "nat \<Rightarrow> nat \<Rightarrow> nat \<Rightarrow> string" where
  "yyyy_mm_dd y m d = show4 y @ ''-'' @ show2 m @ ''-'' @ show2 d"

definition hh_mm_ss :: "nat \<Rightarrow> nat \<Rightarrow> nat \<Rightarrow> string" where
  "hh_mm_ss h mi s = show2 h @ '':'' @ show2 mi @ '':'' @ show2 s"

text \<open>The fraction of the second: none, or \<open>Some (n, v)\<close> for the \<open>n\<close> digits of \<open>v\<close>
  after a point, which stand for \<open>v\<close> times \<open>10 ^ (6 - n)\<close> microseconds.\<close>

definition fraction_string :: "(nat \<times> nat) option \<Rightarrow> string" where
  "fraction_string fr = (case fr of None \<Rightarrow> [] | Some (n, v) \<Rightarrow> CHR ''.'' # digits n v)"

definition fraction_micros :: "(nat \<times> nat) option \<Rightarrow> nat" where
  "fraction_micros fr = (case fr of None \<Rightarrow> 0 | Some (n, v) \<Rightarrow> v * 10 ^ (6 - n))"

definition fraction_ok :: "(nat \<times> nat) option \<Rightarrow> bool" where
  "fraction_ok fr = (case fr of None \<Rightarrow> True | Some (n, v) \<Rightarrow> 1 \<le> n \<and> n \<le> 6 \<and> v < 10 ^ n)"

text \<open>The offset: \<^verbatim>\<open>Z\<close>, or a sign (\<open>True\<close> is \<^verbatim>\<open>-\<close>) and then \<^verbatim>\<open>HH:MM\<close>,
  \<^verbatim>\<open>HHMM\<close> or \<^verbatim>\<open>HH\<close>; its value is in microseconds.\<close>

datatype offset_form = Zulu | Extended bool nat nat | Basic bool nat nat | Hours bool nat

definition sign_char :: "bool \<Rightarrow> char" where
  "sign_char neg = (if neg then CHR ''-'' else CHR ''+'')"

fun offset_string :: "offset_form \<Rightarrow> string" where
  "offset_string Zulu = ''Z''"
| "offset_string (Extended neg oh om) = sign_char neg # show2 oh @ '':'' @ show2 om"
| "offset_string (Basic neg oh om) = sign_char neg # show2 oh @ show2 om"
| "offset_string (Hours neg oh) = sign_char neg # show2 oh"

definition signed_micros :: "bool \<Rightarrow> nat \<Rightarrow> nat \<Rightarrow> int" where
  "signed_micros neg oh om =
     (let mag = int ((oh * 60 + om) * 60) * 1000000 in if neg then - mag else mag)"

fun offset_micros :: "offset_form \<Rightarrow> int" where
  "offset_micros Zulu = 0"
| "offset_micros (Extended neg oh om) = signed_micros neg oh om"
| "offset_micros (Basic neg oh om) = signed_micros neg oh om"
| "offset_micros (Hours neg oh) = signed_micros neg oh 0"

fun offset_ok :: "offset_form \<Rightarrow> bool" where
  "offset_ok Zulu = True"
| "offset_ok (Extended neg oh om) = (oh \<le> 23 \<and> om \<le> 59)"
| "offset_ok (Basic neg oh om) = (oh \<le> 23 \<and> om \<le> 59)"
| "offset_ok (Hours neg oh) = (oh \<le> 23)"

text \<open>The whole spelling; \<open>sep\<close> is the character between date and time, which is
  \<^verbatim>\<open>T\<close> in a Google event.\<close>

definition date_time_offset ::
  "nat \<Rightarrow> nat \<Rightarrow> nat \<Rightarrow> char \<Rightarrow> nat \<Rightarrow> nat \<Rightarrow> nat \<Rightarrow> (nat \<times> nat) option \<Rightarrow> offset_form \<Rightarrow> string" where
  "date_time_offset y m d sep h mi s fr off =
     yyyy_mm_dd y m d @ [sep] @ hh_mm_ss h mi s @ fraction_string fr @ offset_string off"

section \<open>Properties of the field accessor\<close>

lemma getitem_not_Exception: "getitem d k \<noteq> Inl (Exception msg)"
  by (simp add: getitem_def split: option.splits)

lemma dt_not_Exception: "dt v \<noteq> Inl (Exception msg)"
  by (simp add: dt_def split: pyval.splits)

lemma ical_dt_not_Exception: "ical_dt d k \<noteq> Inl (Exception msg)"
  using getitem_not_Exception[of d k msg] dt_not_Exception[of _ msg]
  by (auto simp: ical_dt_def split: sum.splits)

lemma make_date_not_Exception: "make_date y m d \<noteq> Inl (Exception msg)"
  by (simp add: make_date_def)

lemma make_datetime_not_Exception: "make_datetime y m d h mi s us tz \<noteq> Inl (Exception msg)"
  by (simp add: make_datetime_def)

lemma strptime_date_not_Exception: "strptime_date s \<noteq> Inl (Exception msg)"
  by (simp add: strptime_date_def make_date_not_Exception
      split: option.splits list.splits prod.splits)

lemma iso_to_ymd_not_Exception: "iso_to_ymd y w d \<noteq> Inl (Exception msg)"
  by (simp add: iso_to_ymd_def)

lemma parse_isoformat_date_not_Exception: "parse_isoformat_date s sep \<noteq> Inl (Exception msg)"
  by (simp add: parse_isoformat_date_def Let_def iso_to_ymd_not_Exception
      split: option.splits prod.splits)

lemma parse_isoformat_time_not_Exception: "parse_isoformat_time s \<noteq> Inl (Exception msg)"
  by (simp add: parse_isoformat_time_def Let_def split: option.splits prod.splits)

lemma tzinfo_from_isoformat_results_not_Exception:
  "tzinfo_from_isoformat_results tz \<noteq> Inl (Exception msg)"
  by (simp add: tzinfo_from_isoformat_results_def Let_def split: option.splits prod.splits)

lemma fromisoformat_not_Exception: "fromisoformat s \<noteq> Inl (Exception msg)"
  using parse_isoformat_time_not_Exception[of _ msg]
    parse_isoformat_date_not_Exception[of _ _ msg]
    tzinfo_from_isoformat_results_not_Exception[of _ msg]
    make_datetime_not_Exception[of _ _ _ _ _ _ _ _ msg]
  by (auto simp: fromisoformat_def split: option.splits sum.splits prod.splits)

lemma google_time_not_Exception: "google_time v \<noteq> Inl (Exception msg)"
  using fromisoformat_not_Exception[of _ msg] strptime_date_not_Exception[of _ msg]
    getitem_not_Exception[of _ _ msg]
  by (auto simp: google_time_def datetime_fromisoformat_def datetime_strptime_date_def
      split: pyval.splits sum.splits)

lemma event_field_known_not_Exception:
  "field \<in> set EVENT_FIELDS \<Longrightarrow> event_field e field \<noteq> Inl (Exception msg)"
  using google_time_not_Exception[of _ msg] getitem_not_Exception[of _ _ msg]
    ical_dt_not_Exception[of _ _ msg]
  by (auto simp: event_field_def EVENT_FIELDS_def split: event.splits sum.splits)

lemma event_field_ical_errors:
  "field \<in> set EVENT_FIELDS \<Longrightarrow> event_field (ICal c) field = Inl err \<Longrightarrow>
     (field = EVENT_ID \<and> err = KeyError ''UID'' \<and> props c ''UID'' = None) \<or>
     (field = EVENT_STATUS \<and> err = KeyError ''STATUS'' \<and> props c ''STATUS'' = None) \<or>
     (field = EVENT_LOCATION \<and> err = KeyError ''LOCATION'' \<and> props c ''LOCATION'' = None) \<or>
     (field = EVENT_START \<and> err = AttributeError \<and> props c ''DTSTART'' \<noteq> None) \<or>
     (field = EVENT_END \<and> err = AttributeError \<and> props c ''DTEND'' \<noteq> None)"
  by (auto simp: event_field_def EVENT_FIELDS_def getitem_def contains_def ical_dt_def dt_def
      split: if_splits option.splits pyval.splits)

lemmas field_name_defs =
  EVENT_ID_def EVENT_SUMMARY_def EVENT_DESCRIPTION_def EVENT_LOCATION_def
  EVENT_STATUS_def EVENT_RECURRENCE_def EVENT_START_def EVENT_END_def

lemma event_field_unknown:
  "field \<notin> set EVENT_FIELDS \<Longrightarrow>
   event_field e field = Inl (Exception (''Unknown event field: '' @ field))"
  by (simp add: event_field_def)

text \<open>
  \<^bold>\<open>C6\<close>. A field name outside \<open>EVENT_FIELDS\<close> is refused with the exception
  \<^verbatim>\<open>Unknown event field\<close>, for either shape. For a name inside the list, though, a
  Google event without a location (or without a status) is not read as \<^verbatim>\<open>None\<close>,
  as the absence policy has it: the lookup raises \<^verbatim>\<open>KeyError\<close>, and so does the
  lookup of the status of an iCal event that has none.
\<close>

theorem event_field_known_field_raises:
  "event_field (Google [''id'' \<mapsto> VStr ''g1'', ''iCalUID'' \<mapsto> VStr ''A'',
       ''summary'' \<mapsto> VStr ''Standup'']) ''colour''
     = Inl (Exception ''Unknown event field: colour'') \<and>
   event_field (ICal (Component ''VEVENT'' [''UID'' \<mapsto> VStr ''A''] [])) ''colour''
     = Inl (Exception ''Unknown event field: colour'') \<and>
   event_field (Google [''id'' \<mapsto> VStr ''g1'', ''iCalUID'' \<mapsto> VStr ''A'',
       ''summary'' \<mapsto> VStr ''Standup'']) EVENT_LOCATION
     = Inl (KeyError ''location'') \<and>
   event_field (Google [''id'' \<mapsto> VStr ''g1'', ''iCalUID'' \<mapsto> VStr ''A'',
       ''summary'' \<mapsto> VStr ''Standup'']) EVENT_STATUS
     = Inl (KeyError ''status'') \<and>
   event_field (ICal (Component ''VEVENT'' [''UID'' \<mapsto> VStr ''A''] [])) EVENT_STATUS
     = Inl (KeyError ''STATUS'')"
  by (simp add: event_field_def EVENT_FIELDS_def field_name_defs getitem_def contains_def)

text \<open>
  \<^bold>\<open>C2\<close>. An iCal event that has a \<^verbatim>\<open>UID\<close> and a \<^verbatim>\<open>SUMMARY\<close> and nothing else: the
  description is the empty string and recurrence, start and end are \<^verbatim>\<open>None\<close>, but reading
  the location or the status raises \<^verbatim>\<open>KeyError\<close> instead of returning \<^verbatim>\<open>None\<close>.
\<close>

theorem event_field_missing_status_location:
  "event_field (ICal (Component ''VEVENT''
      [''UID'' \<mapsto> VStr ''A'', ''SUMMARY'' \<mapsto> VStr ''Standup''] [])) EVENT_LOCATION
     = Inl (KeyError ''LOCATION'') \<and>
   event_field (ICal (Component ''VEVENT''
      [''UID'' \<mapsto> VStr ''A'', ''SUMMARY'' \<mapsto> VStr ''Standup''] [])) EVENT_STATUS
     = Inl (KeyError ''STATUS'') \<and>
   event_field (ICal (Component ''VEVENT''
      [''UID'' \<mapsto> VStr ''A'', ''SUMMARY'' \<mapsto> VStr ''Standup''] [])) EVENT_DESCRIPTION
     = Inr (VStr '''') \<and>
   event_field (ICal (Component ''VEVENT''
      [''UID'' \<mapsto> VStr ''A'', ''SUMMARY'' \<mapsto> VStr ''Standup''] [])) EVENT_RECURRENCE
     = Inr VNone \<and>
   event_field (ICal (Component ''VEVENT''
      [''UID'' \<mapsto> VStr ''A'', ''SUMMARY'' \<mapsto> VStr ''Standup''] [])) EVENT_START
     = Inr VNone \<and>
   event_field (ICal (Component ''VEVENT''
      [''UID'' \<mapsto> VStr ''A'', ''SUMMARY'' \<mapsto> VStr ''Standup''] [])) EVENT_END
     = Inr VNone"
  by (simp add: event_field_def EVENT_FIELDS_def field_name_defs getitem_def contains_def)

section \<open>Properties of the matcher\<close>

text \<open>
  \<^bold>\<open>C4\<close>. When the source event has an id, \<open>is_same_event\<close> returns whether that id
  equals the target's \<^verbatim>\<open>iCalUID\<close>, read as the empty string when the target has none;
  for a string id this is equality of the two strings.
\<close>

theorem is_same_event_iff:
  "event_field outlook EVENT_ID = Inr oid \<Longrightarrow>
   is_same_event outlook google =
     Inr (py_eq oid (case google ''iCalUID'' of None \<Rightarrow> VStr '''' | Some gid \<Rightarrow> gid)) \<and>
   (\<forall>s. oid = VStr s \<longrightarrow>
      (is_same_event outlook google = Inr True) =
      ((case google ''iCalUID'' of None \<Rightarrow> VStr '''' | Some gid \<Rightarrow> gid) = VStr s))"
  by (auto simp: is_same_event_def contains_def getitem_def py_eq_def
      split: option.splits pyval.splits)

theorem is_same_event_iff_witness:
  "event_field (ICal (Component ''VEVENT'' [''UID'' \<mapsto> VStr ''A''] [])) EVENT_ID = Inr (VStr ''A'') \<and>
   is_same_event (ICal (Component ''VEVENT'' [''UID'' \<mapsto> VStr ''A''] []))
     [''iCalUID'' \<mapsto> VStr ''A''] = Inr True \<and>
   is_same_event (ICal (Component ''VEVENT'' [''UID'' \<mapsto> VStr ''A''] []))
     [''iCalUID'' \<mapsto> VStr ''B''] = Inr False"
proof -
  have h: "event_field (ICal (Component ''VEVENT'' [''UID'' \<mapsto> VStr ''A''] [])) EVENT_ID
           = Inr (VStr ''A'')"
    by (simp add: event_field_def EVENT_FIELDS_def field_name_defs getitem_def)
  show ?thesis
    using h is_same_event_iff[OF h, of "[''iCalUID'' \<mapsto> VStr ''A'']"]
      is_same_event_iff[OF h, of "[''iCalUID'' \<mapsto> VStr ''B'']"]
    by (simp add: py_eq_def)
qed

text \<open>
  \<^bold>\<open>C1\<close>, as the code has it. Against a target without \<^verbatim>\<open>iCalUID\<close> the comparison is
  plain equality with the empty string: \<open>is_same_event\<close> returns true exactly when the
  source's id is the empty string, false for every other id, and raises the
  \<^verbatim>\<open>KeyError\<close> of \<open>event_field\<close> when the source has no id entry.
\<close>

theorem is_same_event_absent_target_id:
  "google ''iCalUID'' = None \<Longrightarrow>
   is_same_event outlook google =
     (case event_field outlook EVENT_ID of
        Inl e \<Rightarrow> Inl e
      | Inr oid \<Rightarrow> Inr (oid = VStr ''''))"
  by (auto simp: is_same_event_def contains_def getitem_def py_eq_def
      split: sum.splits pyval.splits)

theorem is_same_event_absent_target_id_witness:
  "(Map.empty :: dict) ''iCalUID'' = None \<and>
   is_same_event (ICal (Component ''VEVENT'' [''UID'' \<mapsto> VStr ''A''] [])) Map.empty = Inr False"
  using is_same_event_absent_target_id[of Map.empty
      "ICal (Component ''VEVENT'' [''UID'' \<mapsto> VStr ''A''] [])"]
  by (simp add: event_field_def EVENT_FIELDS_def field_name_defs getitem_def)

text \<open>
  \<^bold>\<open>C1\<close> as written fails: a source event whose \<^verbatim>\<open>UID\<close> is the empty string and a
  target without \<^verbatim>\<open>iCalUID\<close> are reported as the same event, and a source event
  without \<^verbatim>\<open>UID\<close> makes the call raise rather than return false.
\<close>

theorem is_same_event_empty_counterexample:
  "is_same_event (ICal (Component ''VEVENT'' [''UID'' \<mapsto> VStr ''''] [])) Map.empty = Inr True \<and>
   is_same_event (ICal (Component ''VEVENT'' Map.empty [])) Map.empty = Inl (KeyError ''UID'')"
  by (simp add: is_same_event_def event_field_def EVENT_FIELDS_def field_name_defs
      contains_def getitem_def py_eq_def)

section \<open>Properties of change detection\<close>

lemma changed_loop_Inr:
  "changed_loop outlook google fs = Inr b \<Longrightarrow>
   b = (\<exists>f\<in>set fs. \<exists>ov gv. event_field outlook f = Inr ov \<and>
          event_field google f = Inr gv \<and> \<not> py_eq ov gv)"
proof (induction fs arbitrary: b)
  case Nil
  then show ?case by simp
next
  case (Cons f fs)
  then show ?case
    by (auto split: sum.splits if_splits)
qed

lemma changed_loop_total:
  "\<forall>f\<in>set fs. (\<exists>v. event_field outlook f = Inr v) \<and> (\<exists>v. event_field google f = Inr v) \<Longrightarrow>
   \<exists>b. changed_loop outlook google fs = Inr b"
  by (induction fs) (auto split: sum.splits)

lemma changed_loop_cong:
  "\<forall>f\<in>set fs. event_field outlook f = event_field outlook' f \<and>
      event_field google f = event_field google' f \<Longrightarrow>
   changed_loop outlook google fs = changed_loop outlook' google' fs"
  by (induction fs) (auto split: sum.splits)

lemma event_field_ical_upd:
  "f \<in> set EVENT_COMPARISON_FIELDS \<Longrightarrow>
   event_field (ICal (Component n (p(''STATUS'' := s, ''RRULE'' := r)) subs)) f
   = event_field (ICal (Component n p subs)) f"
  by (auto simp: EVENT_COMPARISON_FIELDS_def event_field_def EVENT_FIELDS_def field_name_defs
      contains_def getitem_def ical_dt_def)

lemma event_field_google_upd:
  "f \<in> set EVENT_COMPARISON_FIELDS \<Longrightarrow>
   event_field (Google (g(''status'' := s, ''recurrence'' := r))) f
   = event_field (Google g) f"
  by (auto simp: EVENT_COMPARISON_FIELDS_def event_field_def EVENT_FIELDS_def field_name_defs
      contains_def getitem_def)

text \<open>
  What the loop does when it returns: the result is true exactly if one of the
  comparison fields has different values in the two events, and it returns whenever the
  five fields can be read from both events. Status and recurrence play no part.
\<close>

lemma has_event_changed_returns:
  "(has_event_changed outlook google = Inr b \<longrightarrow>
      b = (\<exists>f\<in>set EVENT_COMPARISON_FIELDS. \<exists>ov gv. event_field outlook f = Inr ov \<and>
             event_field google f = Inr gv \<and> \<not> py_eq ov gv)) \<and>
   ((\<forall>f\<in>set EVENT_COMPARISON_FIELDS.
        (\<exists>v. event_field outlook f = Inr v) \<and> (\<exists>v. event_field google f = Inr v)) \<longrightarrow>
      (\<exists>res. has_event_changed outlook google = Inr res)) \<and>
   has_event_changed (ICal (Component n (p(''STATUS'' := s, ''RRULE'' := r)) subs))
       (Google (g(''status'' := s', ''recurrence'' := r')))
     = has_event_changed (ICal (Component n p subs)) (Google g)"
proof -
  have a: "has_event_changed outlook google = Inr b \<longrightarrow>
      b = (\<exists>f\<in>set EVENT_COMPARISON_FIELDS. \<exists>ov gv. event_field outlook f = Inr ov \<and>
             event_field google f = Inr gv \<and> \<not> py_eq ov gv)"
    unfolding has_event_changed_def using changed_loop_Inr by blast
  have b: "(\<forall>f\<in>set EVENT_COMPARISON_FIELDS.
        (\<exists>v. event_field outlook f = Inr v) \<and> (\<exists>v. event_field google f = Inr v)) \<longrightarrow>
      (\<exists>res. has_event_changed outlook google = Inr res)"
    unfolding has_event_changed_def using changed_loop_total by blast
  have d: "has_event_changed (ICal (Component n (p(''STATUS'' := s, ''RRULE'' := r)) subs))
       (Google (g(''status'' := s', ''recurrence'' := r')))
     = has_event_changed (ICal (Component n p subs)) (Google g)"
    unfolding has_event_changed_def
    by (rule changed_loop_cong) (simp add: event_field_ical_upd event_field_google_upd)
  from a b d show ?thesis by (intro conjI)
qed

text \<open>
  \<^bold>\<open>C3\<close>. Two matched events that agree in summary and description. In the first
  pair only the Outlook event has a location, in the second only the Google event: the
  locations differ, but \<open>has_event_changed\<close> does not return true. Reading the location
  of the event that has none raises \<^verbatim>\<open>KeyError\<close>, which ends the comparison. A pair
  that differs in the summary is still reported as changed, since the summary is
  compared first.
\<close>

theorem has_event_changed_missing_location:
  "has_event_changed
     (ICal (Component ''VEVENT''
        [''UID'' \<mapsto> VStr ''A'', ''SUMMARY'' \<mapsto> VStr ''Standup'', ''LOCATION'' \<mapsto> VStr ''Room''] []))
     (Google [''id'' \<mapsto> VStr ''g1'', ''iCalUID'' \<mapsto> VStr ''A'', ''summary'' \<mapsto> VStr ''Standup''])
     = Inl (KeyError ''location'') \<and>
   has_event_changed
     (ICal (Component ''VEVENT'' [''UID'' \<mapsto> VStr ''A'', ''SUMMARY'' \<mapsto> VStr ''Standup''] []))
     (Google [''id'' \<mapsto> VStr ''g1'', ''iCalUID'' \<mapsto> VStr ''A'', ''summary'' \<mapsto> VStr ''Standup'',
        ''location'' \<mapsto> VStr ''Room''])
     = Inl (KeyError ''LOCATION'') \<and>
   has_event_changed
     (ICal (Component ''VEVENT''
        [''UID'' \<mapsto> VStr ''A'', ''SUMMARY'' \<mapsto> VStr ''Standup'', ''LOCATION'' \<mapsto> VStr ''Room''] []))
     (Google [''id'' \<mapsto> VStr ''g1'', ''iCalUID'' \<mapsto> VStr ''A'', ''summary'' \<mapsto> VStr ''Stand-up''])
     = Inr True"
  by (simp add: has_event_changed_def EVENT_COMPARISON_FIELDS_def event_field_def
      EVENT_FIELDS_def field_name_defs contains_def getitem_def py_eq_def)

section \<open>Properties of the event filter\<close>



lemma filter_loop_subseq:
  "filter_loop lib rid rs evs acc = Inr res \<Longrightarrow> \<exists>ys. res = acc @ ys \<and> subseq ys evs"
proof (induction evs arbitrary: acc)
  case Nil
  then show ?case by simp
next
  case (Cons e evs)
  then show ?case
    by (fastforce split: sum.splits if_splits)
qed


lemma filter_loop_missing_summary:
  "e \<in> set evs \<Longrightarrow> props e ''SUMMARY'' = None \<Longrightarrow>
   \<exists>err. filter_loop lib None (Some p) evs acc = Inl err \<and>
     (err = KeyError ''SUMMARY'' \<or> err = TypeError \<or> err = ReError) \<and>
     (lib p \<noteq> None \<longrightarrow> err = KeyError ''SUMMARY'' \<or> err = TypeError)"
proof (induction evs arbitrary: acc)
  case Nil
  then show ?case by simp
next
  case (Cons x evs)
  then show ?case
    by (auto simp: check_pattern_def getitem_def re_match_def
        split: option.splits pyval.splits)
qed

lemma filter_loop_missing_uid:
  "e \<in> set evs \<Longrightarrow> props e ''UID'' = None \<Longrightarrow>
   \<exists>err. filter_loop lib (Some p) rs evs acc = Inl err"
proof (induction evs arbitrary: acc)
  case Nil
  then show ?case by simp
next
  case (Cons x evs)
  then show ?case
    by (auto simp: check_pattern_def getitem_def re_match_def
        split: option.splits pyval.splits sum.splits)
qed




text \<open>
  \<^bold>\<open>C10\<close>. A list returned by \<open>filter_events\<close> is a subsequence of the calendar's
  \<^verbatim>\<open>VEVENT\<close> sequence: it consists of the events at some set of positions of that
  sequence, each position taken once, in increasing order, and the events are the
  calendar's own, unchanged.
\<close>

theorem filter_events_subseq:
  "filter_events m calendar regexp_id regexp_summary = Inr res \<Longrightarrow>
   subseq res (walk calendar ''VEVENT'') \<and>
   (\<exists>N. res = nths (walk calendar ''VEVENT'') N) \<and>
   set res \<subseteq> set (walk calendar ''VEVENT'')"
proof -
  assume "filter_events m calendar regexp_id regexp_summary = Inr res"
  then have s: "subseq res (walk calendar ''VEVENT'')"
    using filter_loop_subseq[of m regexp_id regexp_summary "walk calendar ''VEVENT''" "[]" res]
    by (simp add: filter_events_def)
  then obtain N where n: "res = nths (walk calendar ''VEVENT'') N"
    unfolding subseq_conv_nths by blast
  have "set res \<subseteq> set (walk calendar ''VEVENT'')"
    unfolding n by (rule set_nths_subset)
  with s n show ?thesis by blast
qed

theorem filter_events_subseq_witness:
  "filter_events literal_match
     (Component ''VCALENDAR'' Map.empty
        [Component ''VEVENT'' [''UID'' \<mapsto> VStr ''A1'', ''SUMMARY'' \<mapsto> VStr ''Standup''] [],
         Component ''VEVENT'' [''UID'' \<mapsto> VStr ''B1''] [],
         Component ''VEVENT'' [''UID'' \<mapsto> VStr ''A2'', ''SUMMARY'' \<mapsto> VStr ''Lunch''] []])
     (Some ''A'') None
   = Inr [Component ''VEVENT'' [''UID'' \<mapsto> VStr ''A1'', ''SUMMARY'' \<mapsto> VStr ''Standup''] [],
          Component ''VEVENT'' [''UID'' \<mapsto> VStr ''A2'', ''SUMMARY'' \<mapsto> VStr ''Lunch''] []] \<and>
   subseq
     [Component ''VEVENT'' [''UID'' \<mapsto> VStr ''A1'', ''SUMMARY'' \<mapsto> VStr ''Standup''] [],
      Component ''VEVENT'' [''UID'' \<mapsto> VStr ''A2'', ''SUMMARY'' \<mapsto> VStr ''Lunch''] []]
     (walk (Component ''VCALENDAR'' Map.empty
        [Component ''VEVENT'' [''UID'' \<mapsto> VStr ''A1'', ''SUMMARY'' \<mapsto> VStr ''Standup''] [],
         Component ''VEVENT'' [''UID'' \<mapsto> VStr ''B1''] [],
         Component ''VEVENT'' [''UID'' \<mapsto> VStr ''A2'', ''SUMMARY'' \<mapsto> VStr ''Lunch''] []])
       ''VEVENT'')"
proof -
  let ?E1 = "Component ''VEVENT'' [''UID'' \<mapsto> VStr ''A1'', ''SUMMARY'' \<mapsto> VStr ''Standup''] []"
  let ?E2 = "Component ''VEVENT'' [''UID'' \<mapsto> VStr ''B1''] []"
  let ?E3 = "Component ''VEVENT'' [''UID'' \<mapsto> VStr ''A2'', ''SUMMARY'' \<mapsto> VStr ''Lunch''] []"
  let ?cal = "Component ''VCALENDAR'' Map.empty [?E1, ?E2, ?E3]"
  have la: "literal_match ''A'' = Some (\<lambda>s i. take (length ''A'') (drop i s) = ''A'')"
    by (simp add: literal_match_def special_chars_def)
  have ev: "filter_events literal_match ?cal (Some ''A'') None = Inr [?E1, ?E3]"
    by (simp add: filter_events_def check_pattern_def getitem_def re_match_def la)
  from filter_events_subseq[OF ev] have "subseq [?E1, ?E3] (walk ?cal ''VEVENT'')"
    by (rule conjunct1)
  with ev show ?thesis by (intro conjI)
qed

text \<open>
  \<^bold>\<open>C9\<close>. The lookups of \<open>filter_events\<close> are unguarded. If some \<^verbatim>\<open>VEVENT\<close> of
  the calendar has no \<^verbatim>\<open>SUMMARY\<close>, a call with a summary pattern (and no id pattern)
  raises: for a well-formed pattern with the \<^verbatim>\<open>KeyError\<close> of the missing entry, unless
  an event before it has already failed with a summary that is no string; for a
  malformed pattern possibly with \<^verbatim>\<open>re.error\<close>. \<open>event_field\<close> reads the summary of
  the same event as the empty string. If some \<^verbatim>\<open>VEVENT\<close> has no \<^verbatim>\<open>UID\<close>, a call with
  an id pattern raises as well.
\<close>

theorem filter_events_unguarded_lookup:
  "e \<in> set (walk calendar ''VEVENT'') \<Longrightarrow>
   (props e ''SUMMARY'' = None \<longrightarrow>
      (\<exists>err. filter_events m calendar None (Some p) = Inl err \<and>
             (err = KeyError ''SUMMARY'' \<or> err = TypeError \<or> err = ReError) \<and>
             (m p \<noteq> None \<longrightarrow> err = KeyError ''SUMMARY'' \<or> err = TypeError)) \<and>
      event_field (ICal e) EVENT_SUMMARY = Inr (VStr '''')) \<and>
   (props e ''UID'' = None \<longrightarrow>
      (\<exists>err. filter_events m calendar (Some p) regexp_summary = Inl err))"
proof -
  assume mem: "e \<in> set (walk calendar ''VEVENT'')"
  have a: "\<exists>err. filter_events m calendar None (Some p) = Inl err \<and>
             (err = KeyError ''SUMMARY'' \<or> err = TypeError \<or> err = ReError) \<and>
             (m p \<noteq> None \<longrightarrow> err = KeyError ''SUMMARY'' \<or> err = TypeError)"
    if n: "props e ''SUMMARY'' = None"
    unfolding filter_events_def by (rule filter_loop_missing_summary[OF mem n])
  have b: "event_field (ICal e) EVENT_SUMMARY = Inr (VStr '''')"
    if n: "props e ''SUMMARY'' = None"
    using n by (simp add: event_field_def EVENT_FIELDS_def field_name_defs contains_def)
  have c: "\<exists>err. filter_events m calendar (Some p) regexp_summary = Inl err"
    if n: "props e ''UID'' = None"
    unfolding filter_events_def by (rule filter_loop_missing_uid[OF mem n])
  show ?thesis
  proof (intro conjI impI)
    assume "props e ''SUMMARY'' = None"
    then show "\<exists>err. filter_events m calendar None (Some p) = Inl err \<and>
             (err = KeyError ''SUMMARY'' \<or> err = TypeError \<or> err = ReError) \<and>
             (m p \<noteq> None \<longrightarrow> err = KeyError ''SUMMARY'' \<or> err = TypeError)"
      by (rule a)
  next
    assume "props e ''SUMMARY'' = None"
    then show "event_field (ICal e) EVENT_SUMMARY = Inr (VStr '''')"
      by (rule b)
  next
    assume "props e ''UID'' = None"
    then show "\<exists>err. filter_events m calendar (Some p) regexp_summary = Inl err"
      by (rule c)
  qed
qed

theorem filter_events_unguarded_lookup_witness:
  "Component ''VEVENT'' [''UID'' \<mapsto> VStr ''C1''] []
     \<in> set (walk (Component ''VCALENDAR'' Map.empty
          [Component ''VEVENT'' [''UID'' \<mapsto> VStr ''A1'', ''SUMMARY'' \<mapsto> VStr ''Standup''] [],
           Component ''VEVENT'' [''UID'' \<mapsto> VStr ''C1''] []]) ''VEVENT'') \<and>
   props (Component ''VEVENT'' [''UID'' \<mapsto> VStr ''C1''] []) ''SUMMARY'' = None \<and>
   filter_events literal_match
     (Component ''VCALENDAR'' Map.empty
        [Component ''VEVENT'' [''UID'' \<mapsto> VStr ''A1'', ''SUMMARY'' \<mapsto> VStr ''Standup''] [],
         Component ''VEVENT'' [''UID'' \<mapsto> VStr ''C1''] []])
     None (Some ''Stand'') = Inl (KeyError ''SUMMARY'') \<and>
   event_field (ICal (Component ''VEVENT'' [''UID'' \<mapsto> VStr ''C1''] [])) EVENT_SUMMARY
     = Inr (VStr '''') \<and>
   Component ''VEVENT'' [''SUMMARY'' \<mapsto> VStr ''Lunch''] []
     \<in> set (walk (Component ''VCALENDAR'' Map.empty
          [Component ''VEVENT'' [''SUMMARY'' \<mapsto> VStr ''Lunch''] []]) ''VEVENT'') \<and>
   props (Component ''VEVENT'' [''SUMMARY'' \<mapsto> VStr ''Lunch''] []) ''UID'' = None \<and>
   filter_events literal_match
     (Component ''VCALENDAR'' Map.empty [Component ''VEVENT'' [''SUMMARY'' \<mapsto> VStr ''Lunch''] []])
     (Some ''A'') None = Inl (KeyError ''UID'')"
proof -
  let ?E1 = "Component ''VEVENT'' [''UID'' \<mapsto> VStr ''A1'', ''SUMMARY'' \<mapsto> VStr ''Standup''] []"
  let ?E4 = "Component ''VEVENT'' [''UID'' \<mapsto> VStr ''C1''] []"
  let ?E5 = "Component ''VEVENT'' [''SUMMARY'' \<mapsto> VStr ''Lunch''] []"
  let ?cal = "Component ''VCALENDAR'' Map.empty [?E1, ?E4]"
  let ?cal' = "Component ''VCALENDAR'' Map.empty [?E5]"
  have ls: "literal_match ''Stand'' = Some (\<lambda>s i. take (length ''Stand'') (drop i s) = ''Stand'')"
    by (simp add: literal_match_def special_chars_def)
  have m1: "?E4 \<in> set (walk ?cal ''VEVENT'')" by simp
  have n1: "props ?E4 ''SUMMARY'' = None" by simp
  have m2: "?E5 \<in> set (walk ?cal' ''VEVENT'')" by simp
  have n2: "props ?E5 ''UID'' = None" by simp
  have r1: "filter_events literal_match ?cal None (Some ''Stand'') = Inl (KeyError ''SUMMARY'')"
    using filter_events_unguarded_lookup[OF m1, of literal_match "''Stand''" None]
    by (simp add: filter_events_def check_pattern_def getitem_def re_match_def ls)
  have r2: "event_field (ICal ?E4) EVENT_SUMMARY = Inr (VStr '''')"
    using filter_events_unguarded_lookup[OF m1, of literal_match "''Stand''" None] n1
    by (simp only:)
  have r3: "filter_events literal_match ?cal' (Some ''A'') None = Inl (KeyError ''UID'')"
    using filter_events_unguarded_lookup[OF m2, of literal_match "''A''" None]
    by (simp add: filter_events_def check_pattern_def getitem_def)
  show ?thesis by (intro conjI m1 n1 r1 r2 m2 n2 r3)
qed

section \<open>Properties of the poll loop\<close>

lemma cadence_append: "cadence (xs @ ys) = cadence xs @ cadence ys"
  by (simp add: cadence_def)

lemma upt_0_Suc_shift: "[0 ..< Suc k] = 0 # map Suc [0 ..< k]"
  by (simp add: upt_conv_Cons map_Suc_upt del: upt_Suc)

lemma sync_loop_polling:
  "\<forall>j. sleep j n = None \<Longrightarrow> \<forall>j. \<exists>k. pipeline j = Inr k \<Longrightarrow>
   fst (sync_loop fuel sleep pipeline (Some n) i tr) = Running \<and>
   cadence (snd (sync_loop fuel sleep pipeline (Some n) i tr))
     = cadence tr @ concat (map (\<lambda>j. [Cycle (i + j), Sleep n]) [0 ..< fuel])"
proof (induction fuel arbitrary: i tr)
  case 0
  then show ?case by simp
next
  case (Suc fuel)
  from Suc.prems obtain k where k: "pipeline i = Inr k" by blast
  from Suc.prems have sl: "sleep i n = None" by blast
  have c1: "cadence (tr @ [Cycle i] @ (if 0 < k then [LogWarning] else []) @ [LogInfo n, Sleep n])
            = cadence tr @ [Cycle i, Sleep n]"
    by (simp add: cadence_def)
  have step: "sync_loop (Suc fuel) sleep pipeline (Some n) i tr
     = sync_loop fuel sleep pipeline (Some n) (Suc i)
         (tr @ [Cycle i] @ (if 0 < k then [LogWarning] else []) @ [LogInfo n, Sleep n])"
    using sl k by (simp add: Let_def)
  show ?case
    unfolding step
    using Suc.IH[OF Suc.prems, of "Suc i"]
    by (simp only: c1 upt_0_Suc_shift) (simp add: comp_def)
qed

text \<open>
  \<^bold>\<open>C8\<close>, as the code has it. Without a poll interval, \<open>sync_events\<close> runs the
  pipeline once and returns (given that the run raises nothing). With a poll interval
  \<open>n\<close> that \<^verbatim>\<open>time.sleep\<close> accepts, and a pipeline whose cycles raise nothing, the loop
  is still running after any number of iterations, and what it has done up to then is
  cycle \<open>0\<close>, sleep \<open>n\<close>, cycle \<open>1\<close>, sleep \<open>n\<close>, and so on: the same whatever numbers of
  per-item errors the cycles report.
\<close>

theorem sync_events_modes:
  "(pipeline 0 = Inr k \<longrightarrow>
      sync_events (Suc fuel) sleep pipeline None
        = (Returned, Cycle 0 # (if 0 < k then [LogWarning] else []))) \<and>
   ((\<forall>j. sleep j n = None) \<and> (\<forall>j. \<exists>c. pipeline j = Inr c) \<longrightarrow>
      fst (sync_events fuel sleep pipeline (Some n)) = Running \<and>
      cadence (snd (sync_events fuel sleep pipeline (Some n)))
        = concat (map (\<lambda>j. [Cycle j, Sleep n]) [0 ..< fuel]))"
proof -
  have a: "pipeline 0 = Inr k \<longrightarrow>
      sync_events (Suc fuel) sleep pipeline None
        = (Returned, Cycle 0 # (if 0 < k then [LogWarning] else []))"
    by (simp add: sync_events_def)
  have b: "(\<forall>j. sleep j n = None) \<and> (\<forall>j. \<exists>c. pipeline j = Inr c) \<longrightarrow>
      fst (sync_events fuel sleep pipeline (Some n)) = Running \<and>
      cadence (snd (sync_events fuel sleep pipeline (Some n)))
        = concat (map (\<lambda>j. [Cycle j, Sleep n]) [0 ..< fuel])"
    using sync_loop_polling[of sleep n pipeline fuel 0 "[]"]
    by (simp add: sync_events_def cadence_def)
  from a b show ?thesis by (intro conjI)
qed

theorem sync_events_modes_witness:
  "sync_events (Suc 0) (\<lambda>i. time_sleep 9000000000) (\<lambda>i::nat. Inr (if i = 1 then 2 else 0)) None
     = (Returned, [Cycle 0]) \<and>
   (\<forall>j::nat. time_sleep 9000000000 60 = None) \<and>
   (\<forall>j::nat. \<exists>c::nat. (Inr (if j = 1 then 2 else 0) :: error + nat) = Inr c) \<and>
   fst (sync_events 3 (\<lambda>i. time_sleep 9000000000) (\<lambda>i::nat. Inr (if i = 1 then 2 else 0))
          (Some 60)) = Running \<and>
   cadence (snd (sync_events 3 (\<lambda>i. time_sleep 9000000000)
                   (\<lambda>i::nat. Inr (if i = 1 then 2 else 0)) (Some 60)))
     = [Cycle 0, Sleep 60, Cycle 1, Sleep 60, Cycle 2, Sleep 60]"
proof -
  let ?P = "\<lambda>i::nat. (Inr (if i = 1 then 2 else 0) :: error + nat)"
  let ?S = "\<lambda>i::nat. time_sleep 9000000000"
  have h: "\<forall>j::nat. \<exists>c::nat. (Inr (if j = 1 then 2 else 0) :: error + nat) = Inr c"
    by simp
  have sl: "\<forall>j::nat. time_sleep 9000000000 60 = None"
    by (simp add: time_sleep_def)
  have p0: "?P 0 = Inr 0" by simp
  have up: "[0 ..< 3] = [0, 1, 2::nat]" by (simp add: upt_rec)
  have a: "sync_events (Suc 0) ?S ?P None = (Returned, [Cycle 0])"
    using sync_events_modes[of ?P 0 0 ?S 60] p0 by simp
  have bc: "fst (sync_events 3 ?S ?P (Some 60)) = Running \<and>
     cadence (snd (sync_events 3 ?S ?P (Some 60)))
       = concat (map (\<lambda>j. [Cycle j, Sleep 60]) [0 ..< 3])"
    using sync_events_modes[of ?P 0 3 ?S 60] h sl by simp
  have c: "concat (map (\<lambda>j. [Cycle j, Sleep 60]) [0 ..< 3])
     = [Cycle 0, Sleep 60, Cycle 1, Sleep 60, Cycle 2, Sleep 60]"
    unfolding up by simp
  from bc c have b': "fst (sync_events 3 ?S ?P (Some 60)) = Running"
    and c': "cadence (snd (sync_events 3 ?S ?P (Some 60)))
       = [Cycle 0, Sleep 60, Cycle 1, Sleep 60, Cycle 2, Sleep 60]"
    by (simp_all only:)
  show ?thesis by (intro conjI a sl h b' c')
qed

text \<open>
  \<^bold>\<open>C8\<close> as written fails: with the poll interval \<open>-1\<close> the loop does not repeat.
  After the first cycle \<^verbatim>\<open>time.sleep\<close> raises \<^verbatim>\<open>ValueError\<close>, which ends
  \<open>sync_events\<close>.
\<close>

theorem sync_events_negative_interval_counterexample:
  "sync_events 3 (\<lambda>i. time_sleep 9000000000) (\<lambda>i. Inr 0) (Some (- 1))
     = (Raised ValueError, [Cycle 0, LogInfo (- 1)])"
  by (simp add: sync_events_def time_sleep_def eval_nat_numeral)

end
